theory Spec2Isabelle
  imports Main "HOL-Library.Sublist"
begin

section \<open>Python strings\<close>

text \<open>
  A Python \<open>str\<close> is modelled as a \<open>string\<close>; one \<open>char\<close> stands for one code point
  below 256. Paths (\<open>pathlib.Path\<close> objects and plain strings alike) are strings, so
  \<open>str(file)\<close> is the identity.
\<close>

text \<open>\<open>s.split(sep)\<close> for a one-character separator: never empty, \<open>''.split('.') == ['']\<close>.\<close>

fun py_split :: "char \<Rightarrow> string \<Rightarrow> string list" where
  "py_split sep [] = [[]]"
| "py_split sep (x # xs) =
     (if x = sep then [] # py_split sep xs
      else (case py_split sep xs of
              [] \<Rightarrow> [[x]]
            | w # ws \<Rightarrow> (x # w) # ws))"

text \<open>\<open>file.split('.')[-1]\<close>: the last piece of the split.\<close>

definition file_suffix :: "string \<Rightarrow> string" where
  "file_suffix file = last (py_split CHR ''.'' file)"

text \<open>\<open>str.isspace\<close> on the code points below 256.\<close>

definition py_isspace :: "char \<Rightarrow> bool" where
  "py_isspace c =
     (let n = (of_char c :: nat)
      in (9 \<le> n \<and> n \<le> 13) \<or> (28 \<le> n \<and> n \<le> 32) \<or> n = 133 \<or> n = 160)"

text \<open>\<open>s.strip()\<close>: leading and trailing whitespace removed.\<close>

definition py_strip :: "string \<Rightarrow> string" where
  "py_strip s = rev (dropWhile py_isspace (rev (dropWhile py_isspace s)))"

text \<open>\<open>s.startswith(p)\<close>.\<close>

definition startswith :: "string \<Rightarrow> string \<Rightarrow> bool" where
  "startswith s p = (take (length p) s = p)"

text \<open>\<open>sub in s\<close>: \<open>sub\<close> occurs in \<open>s\<close> as a contiguous substring.\<close>

fun py_in :: "string \<Rightarrow> string \<Rightarrow> bool" where
  "py_in sub [] = (sub = [])"
| "py_in sub (x # xs) = (if startswith (x # xs) sub then True else py_in sub xs)"

text \<open>\<open>sep.join(xs)\<close>.\<close>

fun py_join :: "string \<Rightarrow> string list \<Rightarrow> string" where
  "py_join sep [] = []"
| "py_join sep [x] = x"
| "py_join sep (x # y # ys) = x @ sep @ py_join sep (y # ys)"

text \<open>\<open>str(n)\<close> of an integer, as the f-string \<open>f'clang-format-{clang_version}'\<close> formats it.\<close>

definition digit_char :: "nat \<Rightarrow> char" where
  "digit_char d = ''0123456789'' ! (d mod 10)"

function str_nat :: "nat \<Rightarrow> string" where
  "str_nat n = (if n < 10 then [digit_char n] else str_nat (n div 10) @ [digit_char (n mod 10)])"
  by pat_completeness auto
termination
  by (relation "measure (\<lambda>n. n)") auto

declare str_nat.simps [simp del]

definition py_str_int :: "int \<Rightarrow> string" where
  "py_str_int i = (if i < 0 then CHR ''-'' # str_nat (nat (- i)) else str_nat (nat i))"

section \<open>Module constants\<close>

definition c_file_suffixes :: "string list" where
  "c_file_suffixes = [''c'', ''h'', ''cpp'']"

definition core_dirs :: "string list" where
  "core_dirs = [''drivers'', ''quantum'', ''tests'', ''tmk_core'', ''platforms'']"

definition ignored :: "string list" where
  "ignored = [''tmk_core/protocol/usb_hid'', ''quantum/template'', ''platforms/chibios'']"

section \<open>Effects, exceptions and the environment\<close>

datatype level = DEBUG | INFO | WARNING | ERROR

text \<open>An argument of a log call (\<open>%s\<close> is filled in by the logging framework).\<close>

datatype pyarg = AStr string | AList "string list" | AInt int | ANone

text \<open>A completed process as \<open>cli.run\<close> returns it with its output captured.\<close>

record proc =
  returncode :: int
  stdout :: string
  stderr :: string

text \<open>
  What the program does to the outside world, in the order it does it: a log call, a
  \<open>print\<close>, a \<open>subprocess.Popen\<close> (started, not waited for), a \<open>cli.run\<close> (the
  command and the completed process).
\<close>

datatype event =
    Log level string "pyarg list"
  | Print string
  | Popen "string list"
  | Run "string list" proc

datatype pyerr =
    TypeError
  | CalledProcessError "string list" int "string option" "string option"
  | ManifestError

text \<open>
  The collaborators outside this module. Each answer may depend on everything the
  program has done so far (the trace), so nothing is assumed to stay the same between
  two calls:
  \<^item> \<open>which_env\<close>: \<open>shutil.which\<close>, the path of an executable or \<open>None\<close>;
  \<^item> \<open>exists_env\<close>: \<open>os.path.exists\<close>;
  \<^item> \<open>run_env\<close>: the exit status and the output streams of a process run to completion;
  \<^item> \<open>manifest_env\<close>: \<open>json.load\<close> of \<open>$HOME/files.json\<close>, a list of strings, or the
    exception of a missing or malformed file;
  \<^item> \<open>c_source_files_env\<close>: \<open>qmk.c_parse.c_source_files\<close>.
\<close>

record env =
  which_env :: "event list \<Rightarrow> string \<Rightarrow> string option"
  exists_env :: "event list \<Rightarrow> string \<Rightarrow> bool"
  run_env :: "event list \<Rightarrow> string list \<Rightarrow> proc"
  manifest_env :: "event list \<Rightarrow> pyerr + string list"
  c_source_files_env :: "event list \<Rightarrow> string list \<Rightarrow> string list"

text \<open>Truth value of \<open>which(binary)\<close>: \<open>None\<close> and the empty string are false.\<close>

definition py_bool :: "string option \<Rightarrow> bool" where
  "py_bool r = (case r of None \<Rightarrow> False | Some p \<Rightarrow> p \<noteq> [])"

text \<open>
  \<open>cli.run(command)\<close> with the defaults of the call sites that read the result: output
  captured, no \<open>check\<close>.
\<close>

definition cli_run :: "env \<Rightarrow> string list \<Rightarrow> event list \<Rightarrow> proc \<times> event list" where
  "cli_run e cmd tr = (let p = run_env e tr cmd in (p, tr @ [Run cmd p]))"

text \<open>
  \<open>cli.run(command, check=True, capture_output=False)\<close>: a non-zero exit status raises
  \<open>CalledProcessError\<close>, whose \<open>stdout\<close> and \<open>stderr\<close> are \<open>None\<close> as nothing was captured.
\<close>

definition cli_run_check :: "env \<Rightarrow> string list \<Rightarrow> event list \<Rightarrow> (pyerr + unit) \<times> event list" where
  "cli_run_check e cmd tr =
     (let p = run_env e tr cmd; tr' = tr @ [Run cmd p]
      in if returncode p \<noteq> 0
         then (Inl (CalledProcessError cmd (returncode p) None None), tr')
         else (Inr (), tr'))"

section \<open>find_clang_format\<close>

definition binary :: "int \<Rightarrow> string" where
  "binary clang_version = ''clang-format-'' @ py_str_int clang_version"

fun find_clang_format_loop :: "env \<Rightarrow> event list \<Rightarrow> int list \<Rightarrow> string" where
  "find_clang_format_loop e tr [] = ''clang-format''"
| "find_clang_format_loop e tr (clang_version # rest) =
     (if py_bool (which_env e tr (binary clang_version)) then binary clang_version
      else find_clang_format_loop e tr rest)"

definition find_clang_format :: "env \<Rightarrow> event list \<Rightarrow> string" where
  "find_clang_format e tr = find_clang_format_loop e tr [7, 8, 9, 10]"

section \<open>find_diffs\<close>

definition diff_cmd :: "string \<Rightarrow> string list" where
  "diff_cmd file = [''diff'', ''-u'', ''--label=a/'' @ file, ''--label=b/'' @ file, file, ''-'']"

text \<open>
  The loop of \<open>find_diffs\<close>, with \<open>found_diffs\<close> as the accumulator. The formatter's
  output reaches \<open>diff\<close> through a pipe; the exit status of \<open>diff\<close> is the environment's
  answer after the formatter was started.
\<close>

fun find_diffs_loop :: "env \<Rightarrow> string list \<Rightarrow> bool \<Rightarrow> event list \<Rightarrow> bool \<times> event list" where
  "find_diffs_loop e [] found_diffs tr = (found_diffs, tr)"
| "find_diffs_loop e (file # rest) found_diffs tr =
     (let tr1 = tr @ [Log DEBUG ''Checking for changes in %s'' [AStr file]];
          tr2 = tr1 @ [Popen [find_clang_format e tr1, file]];
          (diff, tr3) = cli_run e (diff_cmd file) tr2
      in if returncode diff \<noteq> 0
         then find_diffs_loop e rest True (tr3 @ [Print (stdout diff)])
         else find_diffs_loop e rest found_diffs tr3)"

definition find_diffs :: "env \<Rightarrow> string list \<Rightarrow> event list \<Rightarrow> bool \<times> event list" where
  "find_diffs e files tr = find_diffs_loop e files False tr"

section \<open>cformat_run\<close>

text \<open>
  The right operand of \<open>+\<close> in \<open>clang_format + map(str, files)\<close>: a list, or the iterator
  that \<open>map\<close> returns. \<open>list.__add__\<close> accepts a list only.
\<close>

datatype pyval = PyList "string list" | PyMap "string list"

definition list_add :: "string list \<Rightarrow> pyval \<Rightarrow> pyerr + string list" where
  "list_add xs v = (case v of PyList ys \<Rightarrow> Inr (xs @ ys) | PyMap ys \<Rightarrow> Inl TypeError)"

text \<open>\<open>except subprocess.CalledProcessError as e\<close>: any other exception propagates.\<close>

definition cformat_run_except :: "pyerr \<Rightarrow> event list \<Rightarrow> (pyerr + bool) \<times> event list" where
  "cformat_run_except ex tr =
     (case ex of
        CalledProcessError cmd rc out err \<Rightarrow>
          (Inr False,
           tr @ [Log ERROR ''Error formatting C code!'' [],
                 Log DEBUG ''%s exited with returncode %s'' [AList cmd, AInt rc],
                 Log DEBUG ''STDOUT:'' [],
                 Log DEBUG (case out of None \<Rightarrow> ''None'' | Some s \<Rightarrow> s) [],
                 Log DEBUG ''STDERR:'' [],
                 Log DEBUG (case err of None \<Rightarrow> ''None'' | Some s \<Rightarrow> s) []])
      | _ \<Rightarrow> (Inl ex, tr))"

definition cformat_run :: "env \<Rightarrow> string list \<Rightarrow> event list \<Rightarrow> (pyerr + bool) \<times> event list" where
  "cformat_run e files tr =
     (let clang_format = [find_clang_format e tr, ''-i'']
      in case list_add clang_format (PyMap (map (\<lambda>f. f) files)) of
           Inl ex \<Rightarrow> cformat_run_except ex tr
         | Inr cmd \<Rightarrow>
             (case cli_run_check e cmd tr of
                (Inl ex, tr1) \<Rightarrow> cformat_run_except ex tr1
              | (Inr u, tr1) \<Rightarrow>
                  (Inr True, tr1 @ [Log INFO ''Successfully formatted the C code.'' []])))"

section \<open>cformat\<close>

text \<open>
  \<open>cli.args\<close>. \<open>files\<close> holds the positional arguments after \<open>type=normpath\<close> was applied
  to each of them; \<open>base_branch\<close> has the default \<open>origin/master\<close>.
\<close>

record args =
  ci :: bool
  dry_run :: bool
  base_branch :: string
  all_files :: bool
  files :: "string list"

definition parse_args ::
  "(string \<Rightarrow> string) \<Rightarrow> bool \<Rightarrow> bool \<Rightarrow> string option \<Rightarrow> bool \<Rightarrow> string list \<Rightarrow> args" where
  "parse_args normpath ci_flag dry_run_flag base all_flag raw_files =
     \<lparr>ci = ci_flag, dry_run = dry_run_flag,
      base_branch = (case base of None \<Rightarrow> ''origin/master'' | Some b \<Rightarrow> b),
      all_files = all_flag, files = map normpath raw_files\<rparr>"

text \<open>What a call of \<open>cformat\<close> ends in: a returned value, \<open>exit(n)\<close>, or an exception.\<close>

datatype retval = RBool bool | RInt int

datatype outcome = Return retval | Exit int | Raise pyerr

text \<open>\<open>file.split('.')[-1] in c_file_suffixes\<close>.\<close>

definition has_c_suffix :: "string \<Rightarrow> bool" where
  "has_c_suffix file = (file_suffix file \<in> set c_file_suffixes)"

text \<open>The list comprehension of the \<open>--ci\<close> branch.\<close>

definition changeset_files :: "string list \<Rightarrow> string list" where
  "changeset_files all_changed_files = filter has_c_suffix all_changed_files"

text \<open>The list comprehension of the \<open>--all-files\<close> branch.\<close>

definition all_files_filter :: "string list \<Rightarrow> string list" where
  "all_files_filter fs = filter (\<lambda>file. \<not> list_ex (\<lambda>i. py_in i file) ignored) fs"

text \<open>The loop over the lines of \<open>git diff --name-only\<close>; \<open>files_acc\<close> is the list \<open>files\<close> it appends to.\<close>

fun branch_diff_loop :: "env \<Rightarrow> event list \<Rightarrow> string list \<Rightarrow> string list \<Rightarrow> string list" where
  "branch_diff_loop e tr [] files_acc = files_acc"
| "branch_diff_loop e tr (file # rest) files_acc =
     (if \<not> list_ex (\<lambda>b. b) (map (\<lambda>ignore. startswith file ignore) ignored)
      then (if exists_env e tr file \<and> has_c_suffix file
            then branch_diff_loop e tr rest (files_acc @ [file])
            else branch_diff_loop e tr rest files_acc)
      else branch_diff_loop e tr rest files_acc)"

definition git_diff_cmd :: "args \<Rightarrow> string list" where
  "git_diff_cmd a = [''git'', ''diff'', ''--name-only'', base_branch a] @ core_dirs"

text \<open>The warning of the \<open>--ci\<close> branch: \<open>if cli.args.files or cli.args.all_files\<close>.\<close>

definition ci_warning :: "args \<Rightarrow> event list \<Rightarrow> event list" where
  "ci_warning a tr =
     (if files a \<noteq> [] \<or> all_files a
      then tr @ [Log WARNING ''Filename or -a passed with --ci, only formatting CI files.'' []]
      else tr)"

text \<open>
  The first part of \<open>cformat\<close>, "find the list of files to format": the candidate list,
  or the outcome of the branch that leaves the function early.
\<close>

definition select_files :: "env \<Rightarrow> args \<Rightarrow> event list \<Rightarrow> (outcome + string list) \<times> event list" where
  "select_files e a tr =
     (if ci a then
        (let tr1 = ci_warning a tr
         in case manifest_env e tr1 of
              Inl ex \<Rightarrow> (Inl (Raise ex), tr1)
            | Inr all_changed_files \<Rightarrow>
                (let fs = changeset_files all_changed_files
                 in if fs = []
                    then (Inl (Exit 0),
                          tr1 @ [Log INFO ''No C files in changeset: %s''
                                   [AStr (py_join '', '' all_changed_files)]])
                    else (Inr fs, tr1)))
      else if files a \<noteq> [] then
        (Inr (files a),
         if all_files a
         then tr @ [Log WARNING ''Filenames passed with -a, only formatting: %s''
                      [AStr (py_join '','' (files a))]]
         else tr)
      else if all_files a then
        (Inr (all_files_filter (c_source_files_env e tr core_dirs)), tr)
      else
        (let (git_diff, tr1) = cli_run e (git_diff_cmd a) tr
         in if returncode git_diff \<noteq> 0
            then (Inl (Return (RInt (returncode git_diff))),
                  tr1 @ [Log ERROR ''Error running %s'' [AList (git_diff_cmd a)],
                         Print (stderr git_diff)])
            else (Inr (branch_diff_loop e tr1
                         (py_split CHR 0x0A (py_strip (stdout git_diff))) []), tr1)))"

text \<open>The message of the sanity check; \<open>CHR 0x22\<close> is the double quote.\<close>

definition no_files_msg :: string where
  "no_files_msg =
     ''No changed files detected. Use '' @ [CHR 0x22] @ ''qmk cformat -a'' @ [CHR 0x22]
       @ '' to format all files''"

definition cformat :: "env \<Rightarrow> args \<Rightarrow> event list \<Rightarrow> outcome \<times> event list" where
  "cformat e a tr =
     (case select_files e a tr of
        (Inl out, tr1) \<Rightarrow> (out, tr1)
      | (Inr fs, tr1) \<Rightarrow>
          if fs = []
          then (Return (RBool False),
                tr1 @ [Log ERROR no_files_msg []])
          else if dry_run a
          then (let (found, tr2) = find_diffs e fs tr1 in (Return (RBool (\<not> found)), tr2))
          else (case cformat_run e fs tr1 of
                  (Inl ex, tr2) \<Rightarrow> (Raise ex, tr2)
                | (Inr ok, tr2) \<Rightarrow> (Return (RBool ok), tr2)))"

section \<open>Reading a trace\<close>

text \<open>The events a call added to the trace it started from.\<close>

definition new_events :: "event list \<Rightarrow> event list \<Rightarrow> event list" where
  "new_events tr tr' = drop (length tr) tr'"

text \<open>The commands started with \<open>Popen\<close>, and the commands run to completion with their results.\<close>

fun popen_cmds :: "event list \<Rightarrow> string list list" where
  "popen_cmds [] = []"
| "popen_cmds (Popen cmd # evs) = cmd # popen_cmds evs"
| "popen_cmds (ev # evs) = popen_cmds evs"

fun run_results :: "event list \<Rightarrow> (string list \<times> proc) list" where
  "run_results [] = []"
| "run_results (Run cmd p # evs) = (cmd, p) # run_results evs"
| "run_results (ev # evs) = run_results evs"

text \<open>
  Every \<open>Popen\<close> of \<open>evs\<close> starts, on one file, the executable that \<open>find_clang_format\<close>
  returns in the environment of that very moment; \<open>hist\<close> is the trace before \<open>evs\<close>.
\<close>

fun probes_fresh :: "env \<Rightarrow> event list \<Rightarrow> event list \<Rightarrow> bool" where
  "probes_fresh e hist [] = True"
| "probes_fresh e hist (Popen cmd # evs) =
     (length cmd = 2 \<and> take 1 cmd = [find_clang_format e hist]
      \<and> probes_fresh e (hist @ [Popen cmd]) evs)"
| "probes_fresh e hist (ev # evs) = probes_fresh e (hist @ [ev]) evs"

section \<open>The specification's wording\<close>

text \<open>The suffix of a path as the specification words it: the text after the last \<open>.\<close>.\<close>

definition text_after_last_dot :: "string \<Rightarrow> string" where
  "text_after_last_dot p = rev (takeWhile (\<lambda>c. c \<noteq> CHR ''.'') (rev p))"

text \<open>Formatter resolution as the specification words it: a descending list of versions.\<close>

definition find_clang_format_descending :: "env \<Rightarrow> event list \<Rightarrow> string" where
  "find_clang_format_descending e tr = find_clang_format_loop e tr [10, 9, 8, 7]"

section \<open>Example environments\<close>

text \<open>
  \<open>clang-format-7\<close> and \<open>clang-format-10\<close> are installed, every path exists, only
  \<open>quantum/b.c\<close> differs from the formatter's output, and the version-control diff
  reports one file under \<open>tests/\<close>.
\<close>

definition env_ex :: env where
  "env_ex =
     \<lparr>which_env = (\<lambda>tr b. if b = ''clang-format-7'' \<or> b = ''clang-format-10''
                           then Some (''/usr/bin/'' @ b) else None),
      exists_env = (\<lambda>tr f. True),
      run_env = (\<lambda>tr cmd. \<lparr>returncode = (if cmd = diff_cmd ''quantum/b.c'' then 1 else 0),
                            stdout = ''tests/quantum/template/x.c'' @ [CHR 0x0A],
                            stderr = []\<rparr>),
      manifest_env = (\<lambda>tr. Inr [''src/a.c'', ''src/a.py'', ''docs/readme.md'']),
      c_source_files_env = (\<lambda>tr dirs. [''quantum/template/x.c'', ''quantum/core.c''])\<rparr>"

text \<open>The version-control diff reports nothing; the changeset holds no C file.\<close>

definition env_empty :: env where
  "env_empty =
     env_ex\<lparr>run_env := (\<lambda>tr cmd. \<lparr>returncode = 0, stdout = [], stderr = []\<rparr>),
            manifest_env := (\<lambda>tr. Inr [''docs/readme.md''])\<rparr>"

text \<open>The version-control diff fails.\<close>

definition env_git_fails :: env where
  "env_git_fails =
     env_ex\<lparr>run_env := (\<lambda>tr cmd. \<lparr>returncode = 128, stdout = [],
                                     stderr = ''fatal: bad revision''\<rparr>)\<rparr>"

text \<open>The version-control diff reports a file under an ignored directory and one beside it.\<close>

definition env_ignored :: env where
  "env_ignored =
     env_ex\<lparr>run_env := (\<lambda>tr cmd. \<lparr>returncode = 0,
                stdout = ''quantum/template/x.c'' @ [CHR 0x0A] @ ''quantum/core.c'' @ [CHR 0x0A],
                stderr = []\<rparr>)\<rparr>"

text \<open>\<open>clang-format-7\<close> is installed while the first file is being checked.\<close>

definition env_install :: env where
  "env_install =
     env_ex\<lparr>which_env := (\<lambda>tr b. if b = ''clang-format-7'' \<and> popen_cmds tr \<noteq> []
                                  then Some ''/usr/bin/clang-format-7'' else None)\<rparr>"

text \<open>The arguments of a call with no flag and no file.\<close>

definition args_default :: args where
  "args_default =
     \<lparr>ci = False, dry_run = False, base_branch = ''origin/master'', all_files = False, files = []\<rparr>"

text \<open>Three files to check; the second is the one that differs in \<open>env_ex\<close>.\<close>

definition files_abc :: "string list" where
  "files_abc = [''quantum/a.c'', ''quantum/b.c'', ''quantum/c.c'']"

text \<open>
  The output of \<open>git diff --name-only\<close> for a list of changed paths: one path per line.
  A path as it is printed there is not empty, holds no newline, and neither starts nor
  ends with whitespace.
\<close>

definition name_only_output :: "string list \<Rightarrow> string" where
  "name_only_output paths = concat (map (\<lambda>p. p @ [CHR 0x0A]) paths)"

definition clean_path :: "string \<Rightarrow> bool" where
  "clean_path p =
     (p \<noteq> [] \<and> CHR 0x0A \<notin> set p \<and> \<not> py_isspace (hd p) \<and> \<not> py_isspace (last p))"

section \<open>Facts about the string functions and the selection loops\<close>

lemma py_split_nonempty: "py_split c s \<noteq> []"
  by (induction s) (auto split: list.splits)

lemma py_split_no_sep: "c \<notin> set s \<Longrightarrow> py_split c s = [s]"
  by (induction s) auto

lemma py_split_append: "py_split c (pre @ c # rest) = py_split c pre @ py_split c rest"
proof (induction pre)
  case Nil
  show ?case by simp
next
  case (Cons x xs)
  obtain w ws where "py_split c xs = w # ws"
    using py_split_nonempty [of c xs] by (cases "py_split c xs") auto
  with Cons show ?case by simp
qed

lemma text_after_last_dot_no_dot:
  assumes "CHR ''.'' \<notin> set p"
  shows "text_after_last_dot p = p"
proof -
  have "\<forall>c\<in>set (rev p). c \<noteq> CHR ''.''"
    using assms by auto
  then have "takeWhile (\<lambda>c. c \<noteq> CHR ''.'') (rev p) = rev p"
    by (simp only: takeWhile_eq_all_conv)
  then show ?thesis
    unfolding text_after_last_dot_def by (simp only: rev_rev_ident)
qed

lemma text_after_last_dot_split:
  assumes "CHR ''.'' \<notin> set suf"
  shows "text_after_last_dot (pre @ CHR ''.'' # suf) = suf"
proof -
  have "takeWhile (\<lambda>c. c \<noteq> CHR ''.'') (rev suf @ CHR ''.'' # rev pre) = rev suf"
    using assms by (auto simp: takeWhile_tail)
  then show ?thesis by (simp add: text_after_last_dot_def)
qed

lemma file_suffix_eq: "file_suffix p = text_after_last_dot p"
proof (cases "CHR ''.'' \<in> set p")
  case False
  then show ?thesis
    by (simp add: file_suffix_def py_split_no_sep text_after_last_dot_no_dot)
next
  case True
  then obtain pre suf where p: "p = pre @ CHR ''.'' # suf" and suf: "CHR ''.'' \<notin> set suf"
    using split_list_last [of "CHR ''.''" p] by blast
  have "file_suffix p = last (py_split CHR ''.'' pre @ [suf])"
    using suf by (simp add: file_suffix_def p py_split_append py_split_no_sep)
  then show ?thesis
    using suf by (simp add: p text_after_last_dot_split)
qed

lemma startswith_prefix: "startswith s p \<longleftrightarrow> prefix p s"
proof
  assume "startswith s p"
  then have "take (length p) s = p" by (simp add: startswith_def)
  then show "prefix p s" by (metis take_is_prefix)
next
  assume "prefix p s"
  then show "startswith s p" by (auto simp: prefix_def startswith_def)
qed

lemma py_in_sublist: "py_in sub s \<longleftrightarrow> sublist sub s"
  by (induction s) (auto simp: startswith_prefix sublist_Cons_right)

lemma has_c_suffix_iff:
  "has_c_suffix p \<longleftrightarrow> text_after_last_dot p \<in> {''c'', ''h'', ''cpp''}"
  by (auto simp: has_c_suffix_def c_file_suffixes_def file_suffix_eq)


lemma startswith_ignored:
  "list_ex (\<lambda>b. b) (map (\<lambda>ignore. startswith file ignore) ignored) \<longleftrightarrow> (\<exists>i\<in>set ignored. prefix i file)"
  by (auto simp: list_ex_iff startswith_prefix)

lemma branch_diff_loop_filter:
  "branch_diff_loop e tr ls acc =
     acc @ filter (\<lambda>p. \<not> (\<exists>i\<in>set ignored. prefix i p) \<and> exists_env e tr p
                        \<and> text_after_last_dot p \<in> {''c'', ''h'', ''cpp''}) ls"
proof (induction ls arbitrary: acc)
  case Nil
  show ?case by simp
next
  case (Cons l ls)
  show ?case
    by (simp only: branch_diff_loop.simps startswith_ignored has_c_suffix_iff Cons filter.simps)
       auto
qed

lemma all_files_filter_eq:
  "all_files_filter fs = filter (\<lambda>p. \<not> (\<exists>i\<in>set ignored. sublist i p)) fs"
  by (simp add: all_files_filter_def list_ex_iff py_in_sublist)

lemma changeset_files_eq:
  "changeset_files m = filter (\<lambda>p. text_after_last_dot p \<in> {''c'', ''h'', ''cpp''}) m"
  unfolding changeset_files_def by (rule filter_cong) (simp_all add: has_c_suffix_iff)

lemma binary_7: "binary 7 = ''clang-format-7''"
  by (simp add: binary_def py_str_int_def str_nat.simps digit_char_def)

lemma binary_8: "binary 8 = ''clang-format-8''"
  by (simp add: binary_def py_str_int_def str_nat.simps digit_char_def)

lemma binary_9: "binary 9 = ''clang-format-9''"
  by (simp add: binary_def py_str_int_def str_nat.simps digit_char_def)

lemma binary_10: "binary 10 = ''clang-format-10''"
  by (simp add: binary_def py_str_int_def str_nat.simps digit_char_def)

lemma find_clang_format_find:
  "find_clang_format e tr =
     (case List.find (\<lambda>b. py_bool (which_env e tr b))
             [''clang-format-7'', ''clang-format-8'', ''clang-format-9'', ''clang-format-10''] of
        Some b \<Rightarrow> b
      | None \<Rightarrow> ''clang-format'')"
  by (simp add: find_clang_format_def binary_7 binary_8 binary_9 binary_10)

section \<open>Apply mode\<close>

lemma list_add_map: "list_add xs (PyMap ys) = Inl TypeError"
  by (simp add: list_add_def)

lemma cformat_run_TypeError: "cformat_run e fs tr = (Inl TypeError, tr)"
  by (simp add: cformat_run_def list_add_map cformat_run_except_def Let_def)

text \<open>
  C1 (apply mode) does not hold of the code. The claim: for a non-empty candidate list
  the formatter is run once with the in-place option over the whole list, the call
  returns true or false, and no exception escapes. The code builds the command as
  \<open>clang_format + map(str, files)\<close>, a list plus a \<open>map\<close> iterator, which raises
  \<open>TypeError\<close>; the \<open>except\<close> clause catches \<open>CalledProcessError\<close> only. For the explicit
  file \<open>quantum/quantum.c\<close>, without \<open>--dry-run\<close>, \<open>cformat\<close> ends in the exception
  \<open>TypeError\<close> and has started no process and logged nothing.
\<close>

theorem cformat_apply_raises_TypeError:
  "cformat env_ex (args_default\<lparr>files := [''quantum/quantum.c'']\<rparr>) [] = (Raise TypeError, [])"
  by (simp add: cformat_def select_files_def args_default_def cformat_run_TypeError)

section \<open>Dry run\<close>

lemma run_results_append: "run_results (xs @ ys) = run_results xs @ run_results ys"
  by (induction xs rule: run_results.induct) simp_all

lemma popen_cmds_append: "popen_cmds (xs @ ys) = popen_cmds xs @ popen_cmds ys"
  by (induction xs rule: popen_cmds.induct) simp_all

lemma probes_fresh_append:
  "probes_fresh e h (xs @ ys) \<longleftrightarrow> probes_fresh e h xs \<and> probes_fresh e (h @ xs) ys"
  by (induction e h xs rule: probes_fresh.induct) simp_all

lemma new_events_append: "new_events tr (tr @ new) = new"
  by (simp add: new_events_def)

lemma find_diffs_loop_trace:
  assumes "find_diffs_loop e fs found tr = (r, tr')"
  shows "\<exists>new. tr' = tr @ new
           \<and> map fst (run_results new) = map diff_cmd fs
           \<and> map tl (popen_cmds new) = map (\<lambda>f. [f]) fs
           \<and> (r \<longleftrightarrow> found \<or> list_ex (\<lambda>(c, p). returncode p \<noteq> 0) (run_results new))
           \<and> probes_fresh e tr new"
  using assms
proof (induction fs arbitrary: found tr)
  case Nil
  then show ?case by simp
next
  case (Cons f fs)
  define tr1 where "tr1 = tr @ [Log DEBUG ''Checking for changes in %s'' [AStr f]]"
  define tr2 where "tr2 = tr1 @ [Popen [find_clang_format e tr1, f]]"
  define d where "d = run_env e tr2 (diff_cmd f)"
  define hd_evs where "hd_evs =
     [Log DEBUG ''Checking for changes in %s'' [AStr f], Popen [find_clang_format e tr1, f],
      Run (diff_cmd f) d] @ (if returncode d \<noteq> 0 then [Print (stdout d)] else [])"
  define found' where "found' = (if returncode d \<noteq> 0 then True else found)"
  have step: "find_diffs_loop e (f # fs) found tr = find_diffs_loop e fs found' (tr @ hd_evs)"
    by (simp add: tr1_def tr2_def d_def hd_evs_def found'_def cli_run_def Let_def)
  with Cons.prems have "find_diffs_loop e fs found' (tr @ hd_evs) = (r, tr')"
    by simp
  from Cons.IH [OF this] obtain new where
    tr': "tr' = (tr @ hd_evs) @ new" and
    runs: "map fst (run_results new) = map diff_cmd fs" and
    popens: "map tl (popen_cmds new) = map (\<lambda>f. [f]) fs" and
    res: "r \<longleftrightarrow> found' \<or> list_ex (\<lambda>(c, p). returncode p \<noteq> 0) (run_results new)" and
    fresh: "probes_fresh e (tr @ hd_evs) new"
    by blast
  have hd_runs: "run_results hd_evs = [(diff_cmd f, d)]"
    by (simp add: hd_evs_def)
  have hd_popens: "popen_cmds hd_evs = [[find_clang_format e tr1, f]]"
    by (simp add: hd_evs_def)
  have hd_fresh: "probes_fresh e tr hd_evs"
    by (simp add: hd_evs_def tr1_def)
  have "tr' = tr @ (hd_evs @ new)"
    using tr' by simp
  moreover have "map fst (run_results (hd_evs @ new)) = map diff_cmd (f # fs)"
    by (simp add: run_results_append hd_runs runs)
  moreover have "map tl (popen_cmds (hd_evs @ new)) = map (\<lambda>f. [f]) (f # fs)"
    by (simp add: popen_cmds_append hd_popens popens)
  moreover have "r \<longleftrightarrow> found \<or> list_ex (\<lambda>(c, p). returncode p \<noteq> 0) (run_results (hd_evs @ new))"
    using res by (auto simp: run_results_append hd_runs found'_def)
  moreover have "probes_fresh e tr (hd_evs @ new)"
    using hd_fresh fresh by (simp add: probes_fresh_append)
  ultimately show ?case
    by blast
qed

lemma find_diffs_trace:
  assumes "find_diffs e fs tr = (found, tr')"
  shows "take (length tr) tr' = tr"
    and "map fst (run_results (new_events tr tr')) = map diff_cmd fs"
    and "map tl (popen_cmds (new_events tr tr')) = map (\<lambda>f. [f]) fs"
    and "found \<longleftrightarrow> list_ex (\<lambda>(c, p). returncode p \<noteq> 0) (run_results (new_events tr tr'))"
    and "probes_fresh e tr (new_events tr tr')"
proof -
  from assms have "find_diffs_loop e fs False tr = (found, tr')"
    by (simp add: find_diffs_def)
  from find_diffs_loop_trace [OF this] obtain new where
    "tr' = tr @ new" and
    "map fst (run_results new) = map diff_cmd fs" and
    "map tl (popen_cmds new) = map (\<lambda>f. [f]) fs" and
    "found \<longleftrightarrow> False \<or> list_ex (\<lambda>(c, p). returncode p \<noteq> 0) (run_results new)" and
    "probes_fresh e tr new"
    by blast
  then show "take (length tr) tr' = tr"
    and "map fst (run_results (new_events tr tr')) = map diff_cmd fs"
    and "map tl (popen_cmds (new_events tr tr')) = map (\<lambda>f. [f]) fs"
    and "found \<longleftrightarrow> list_ex (\<lambda>(c, p). returncode p \<noteq> 0) (run_results (new_events tr tr'))"
    and "probes_fresh e tr (new_events tr tr')"
    by (simp_all add: new_events_append)
qed

lemma cformat_dry_run:
  assumes "select_files e a tr0 = (Inr fs, tr)" and "fs \<noteq> []" and "dry_run a"
    and "find_diffs e fs tr = (found, tr')"
  shows "cformat e a tr0 = (Return (RBool (\<not> found)), tr')"
  using assms by (simp add: cformat_def)

text \<open>
  C4 (dry run). \<open>find_diffs\<close> only appends to the trace, and in what it appends: one
  \<open>diff\<close> was run for every file of the list, in list order, whatever the earlier results
  were; one formatter was started for every file, in list order, with the file as its only
  argument (no in-place option: the formatter writes to the pipe, not to the file); the
  result is true iff at least one \<open>diff\<close> ended with a non-zero status. A \<open>cformat\<close> call
  with \<open>--dry-run\<close> whose selection is this non-empty list returns the negation: true
  (success) iff no file differed.
\<close>

theorem find_diffs_checks_every_file:
  assumes "find_diffs e fs tr = (found, tr')"
  shows "take (length tr) tr' = tr
       \<and> map fst (run_results (new_events tr tr')) = map diff_cmd fs
       \<and> map tl (popen_cmds (new_events tr tr')) = map (\<lambda>f. [f]) fs
       \<and> (found \<longleftrightarrow> list_ex (\<lambda>(c, p). returncode p \<noteq> 0) (run_results (new_events tr tr')))
       \<and> (dry_run a \<and> fs \<noteq> [] \<and> select_files e a tr0 = (Inr fs, tr)
            \<longrightarrow> cformat e a tr0 = (Return (RBool (\<not> found)), tr'))"
  using find_diffs_trace(1-4) [OF assms] cformat_dry_run [of e a tr0 fs tr found tr'] assms
  by blast

lemma find_diffs_abc: "fst (find_diffs env_ex files_abc []) = True"
  by (simp add: find_diffs_def files_abc_def env_ex_def cli_run_def diff_cmd_def Let_def)

theorem find_diffs_checks_every_file_witness:
  "fst (find_diffs env_ex files_abc [])
   \<and> map fst (run_results (new_events [] (snd (find_diffs env_ex files_abc []))))
       = map diff_cmd files_abc
   \<and> cformat env_ex (args_default\<lparr>dry_run := True, files := files_abc\<rparr>) []
       = (Return (RBool False), snd (find_diffs env_ex files_abc []))"
proof -
  have sel: "select_files env_ex (args_default\<lparr>dry_run := True, files := files_abc\<rparr>) []
      = (Inr files_abc, [])"
    by (simp add: select_files_def args_default_def files_abc_def)
  have run: "find_diffs env_ex files_abc []
      = (fst (find_diffs env_ex files_abc []), snd (find_diffs env_ex files_abc []))"
    by simp
  have ne: "files_abc \<noteq> []"
    by (simp add: files_abc_def)
  have dry: "dry_run (args_default\<lparr>dry_run := True, files := files_abc\<rparr>)"
    by simp
  show ?thesis
    using find_diffs_checks_every_file [OF run, of "args_default\<lparr>dry_run := True, files := files_abc\<rparr>" "[]"]
      sel ne dry find_diffs_abc
    by simp
qed

section \<open>Selection\<close>

lemma select_files_branch_diff_ok:
  assumes "\<not> ci a" and "files a = []" and "\<not> all_files a"
    and "returncode (run_env e tr (git_diff_cmd a)) = 0"
  shows "select_files e a tr =
     (Inr (branch_diff_loop e (tr @ [Run (git_diff_cmd a) (run_env e tr (git_diff_cmd a))])
             (py_split CHR 0x0A (py_strip (stdout (run_env e tr (git_diff_cmd a))))) []),
      tr @ [Run (git_diff_cmd a) (run_env e tr (git_diff_cmd a))])"
  using assms by (simp add: select_files_def cli_run_def Let_def)

lemma select_files_branch_diff_fails:
  assumes "\<not> ci a" and "files a = []" and "\<not> all_files a"
    and "returncode (run_env e tr (git_diff_cmd a)) \<noteq> 0"
  shows "select_files e a tr =
     (Inl (Return (RInt (returncode (run_env e tr (git_diff_cmd a))))),
      tr @ [Run (git_diff_cmd a) (run_env e tr (git_diff_cmd a)),
            Log ERROR ''Error running %s'' [AList (git_diff_cmd a)],
            Print (stderr (run_env e tr (git_diff_cmd a)))])"
  using assms by (simp add: select_files_def cli_run_def Let_def)

lemma select_files_all_files:
  assumes "\<not> ci a" and "files a = []" and "all_files a"
  shows "select_files e a tr = (Inr (all_files_filter (c_source_files_env e tr core_dirs)), tr)"
  using assms by (simp add: select_files_def)

lemma select_files_explicit:
  assumes "\<not> ci a" and "files a \<noteq> []"
  shows "select_files e a tr =
     (Inr (files a),
      if all_files a
      then tr @ [Log WARNING ''Filenames passed with -a, only formatting: %s''
                   [AStr (py_join '','' (files a))]]
      else tr)"
  using assms by (simp add: select_files_def)

lemma select_files_empty_trace:
  assumes "\<not> ci a" and "select_files e a tr = (Inr [], tr1)"
  shows "tr1 = tr \<or> tr1 = tr @ [Run (git_diff_cmd a) (run_env e tr (git_diff_cmd a))]"
proof (cases "files a = []")
  case False
  with assms show ?thesis
    by (simp add: select_files_explicit)
next
  case True
  show ?thesis
  proof (cases "all_files a")
    case True
    with assms \<open>files a = []\<close> show ?thesis
      by (simp add: select_files_all_files)
  next
    case False
    show ?thesis
    proof (cases "returncode (run_env e tr (git_diff_cmd a)) = 0")
      case True
      with assms \<open>files a = []\<close> \<open>\<not> all_files a\<close> show ?thesis
        by (simp add: select_files_branch_diff_ok)
    next
      case False
      with assms \<open>files a = []\<close> \<open>\<not> all_files a\<close> show ?thesis
        by (simp add: select_files_branch_diff_fails)
    qed
  qed
qed

text \<open>
  C2 as stated ("for every mode") fails in changeset mode: with \<open>--ci\<close> and a manifest that
  holds no C file the candidate list is empty, and the call ends in \<open>exit(0)\<close> after an
  informational log, not in a failure result.
\<close>

theorem empty_changeset_exits_zero_counterexample:
  "changeset_files [''docs/readme.md''] = []
   \<and> cformat env_empty (args_default\<lparr>ci := True\<rparr>) []
       = (Exit 0, [Log INFO ''No C files in changeset: %s'' [AStr ''docs/readme.md'']])
   \<and> fst (cformat env_empty (args_default\<lparr>ci := True\<rparr>) []) \<noteq> Return (RBool False)"
  by (simp add: cformat_def select_files_def args_default_def env_empty_def env_ex_def
      ci_warning_def changeset_files_def has_c_suffix_def file_suffix_def c_file_suffixes_def)

text \<open>
  C2, amended: in every mode other than changeset mode, when the candidate list is empty
  after selection, \<open>cformat\<close> logs the error that advises \<open>qmk cformat -a\<close> and returns
  false; no formatter was started, and the only process the call has run, if any, is the
  version-control diff of the selection.
\<close>

theorem empty_selection_fails:
  assumes "\<not> ci a" and "select_files e a tr = (Inr [], tr1)"
  shows "cformat e a tr = (Return (RBool False), tr1 @ [Log ERROR no_files_msg []])
       \<and> popen_cmds (new_events tr (snd (cformat e a tr))) = []
       \<and> list_all (\<lambda>(cmd, p). cmd = git_diff_cmd a)
            (run_results (new_events tr (snd (cformat e a tr))))"
proof -
  have res: "cformat e a tr = (Return (RBool False), tr1 @ [Log ERROR no_files_msg []])"
    using assms(2) by (simp add: cformat_def)
  from select_files_empty_trace [OF assms]
  have "new_events tr (tr1 @ [Log ERROR no_files_msg []]) = [Log ERROR no_files_msg []]
      \<or> new_events tr (tr1 @ [Log ERROR no_files_msg []])
          = [Run (git_diff_cmd a) (run_env e tr (git_diff_cmd a)), Log ERROR no_files_msg []]"
    by (auto simp: new_events_def)
  then show ?thesis
    using res by auto
qed

theorem empty_selection_fails_witness:
  "cformat env_empty args_default []
     = (Return (RBool False),
        [Run (git_diff_cmd args_default) \<lparr>returncode = 0, stdout = [], stderr = []\<rparr>,
         Log ERROR no_files_msg []])"
proof -
  have sel: "select_files env_empty args_default []
      = (Inr [], [Run (git_diff_cmd args_default) \<lparr>returncode = 0, stdout = [], stderr = []\<rparr>])"
    by (simp add: select_files_def args_default_def env_empty_def env_ex_def cli_run_def
        py_strip_def Let_def has_c_suffix_def file_suffix_def c_file_suffixes_def)
  have "\<not> ci args_default"
    by (simp add: args_default_def)
  from empty_selection_fails [OF this sel] show ?thesis
    by simp
qed

text \<open>
  C8 (branch-diff mode, the diff command fails). With no \<open>--ci\<close>, no file and no
  \<open>--all-files\<close>, a non-zero exit status of the version-control diff ends the call: it
  returns that non-zero status, having logged the error and printed the captured error
  output of the diff. The diff is the only process run: no file is selected or checked, no
  formatter is started, and no other selection mode is tried.
\<close>

theorem branch_diff_failure_aborts:
  assumes "\<not> ci a" and "files a = []" and "\<not> all_files a"
    and "returncode (run_env e tr (git_diff_cmd a)) \<noteq> 0"
  shows "cformat e a tr =
     (Return (RInt (returncode (run_env e tr (git_diff_cmd a)))),
      tr @ [Run (git_diff_cmd a) (run_env e tr (git_diff_cmd a)),
            Log ERROR ''Error running %s'' [AList (git_diff_cmd a)],
            Print (stderr (run_env e tr (git_diff_cmd a)))])"
  by (simp add: cformat_def select_files_branch_diff_fails [OF assms])

theorem branch_diff_failure_aborts_witness:
  "cformat env_git_fails args_default [] =
     (Return (RInt 128),
      [Run (git_diff_cmd args_default) \<lparr>returncode = 128, stdout = [], stderr = ''fatal: bad revision''\<rparr>,
       Log ERROR ''Error running %s'' [AList (git_diff_cmd args_default)],
       Print ''fatal: bad revision''])"
  using branch_diff_failure_aborts [of args_default env_git_fails "[]"]
  by (simp add: args_default_def env_git_fails_def env_ex_def)

section \<open>The lines of the version-control diff\<close>

lemma concat_sep_join:
  "paths \<noteq> [] \<Longrightarrow> concat (map (\<lambda>p. p @ sep) paths) = py_join sep paths @ sep"
  by (induction sep paths rule: py_join.induct) simp_all

lemma name_only_output_join:
  "paths \<noteq> [] \<Longrightarrow> name_only_output paths = py_join [CHR 0x0A] paths @ [CHR 0x0A]"
  by (simp add: name_only_output_def concat_sep_join)

lemma py_join_nonempty:
  "paths \<noteq> [] \<Longrightarrow> list_all clean_path paths \<Longrightarrow> py_join sep paths \<noteq> []"
  by (induction sep paths rule: py_join.induct) (simp_all add: clean_path_def)

lemma hd_py_join:
  "paths \<noteq> [] \<Longrightarrow> list_all clean_path paths \<Longrightarrow> hd (py_join sep paths) = hd (hd paths)"
  by (induction sep paths rule: py_join.induct) (simp_all add: clean_path_def)

lemma last_py_join:
  "paths \<noteq> [] \<Longrightarrow> list_all clean_path paths \<Longrightarrow>
     last (py_join sep paths) = last (last paths)"
proof (induction sep paths rule: py_join.induct)
  case (3 sep x y ys)
  then have "py_join sep (y # ys) \<noteq> []"
    by (simp add: py_join_nonempty)
  with 3 show ?case by simp
qed simp_all

lemma py_split_join:
  "paths \<noteq> [] \<Longrightarrow> list_all clean_path paths \<Longrightarrow>
     py_split CHR 0x0A (py_join [CHR 0x0A] paths) = paths"
proof (induction paths)
  case Nil
  then show ?case by simp
next
  case (Cons x xs)
  show ?case
  proof (cases xs)
    case Nil
    with Cons.prems show ?thesis
      by (simp add: py_split_no_sep clean_path_def)
  next
    case (Cons y ys)
    with Cons.prems Cons.IH show ?thesis
      by (simp add: py_split_append py_split_no_sep clean_path_def)
  qed
qed

lemma py_strip_line:
  assumes "s \<noteq> []" and "\<not> py_isspace (hd s)" and "\<not> py_isspace (last s)"
  shows "py_strip (s @ [CHR 0x0A]) = s"
proof -
  from assms(1) obtain x xs where s: "s = x # xs"
    by (cases s) auto
  from assms(1) obtain ys y where s': "s = ys @ [y]"
    by (cases s rule: rev_cases) auto
  have nl: "py_isspace CHR 0x0A"
    by (simp add: py_isspace_def)
  have "dropWhile py_isspace (s @ [CHR 0x0A]) = s @ [CHR 0x0A]"
    using assms(2) by (simp add: s)
  moreover have "dropWhile py_isspace (rev (s @ [CHR 0x0A])) = rev s"
    using assms(3) nl by (simp add: s')
  ultimately show ?thesis
    by (simp add: py_strip_def)
qed

lemma reported_lines:
  assumes "paths \<noteq> []" and "list_all clean_path paths"
  shows "py_split CHR 0x0A (py_strip (name_only_output paths)) = paths"
proof -
  let ?j = "py_join [CHR 0x0A] paths"
  have "?j \<noteq> []"
    using assms by (rule py_join_nonempty)
  moreover have "\<not> py_isspace (hd ?j)"
    using assms by (cases paths) (simp_all add: hd_py_join clean_path_def)
  moreover have "\<not> py_isspace (last ?j)"
    using assms by (cases paths rule: rev_cases) (simp_all add: last_py_join clean_path_def)
  ultimately have "py_strip (?j @ [CHR 0x0A]) = ?j"
    by (rule py_strip_line)
  then show ?thesis
    using assms by (simp add: name_only_output_join py_split_join)
qed

lemma no_reported_lines: "py_split CHR 0x0A (py_strip (name_only_output [])) = [[]]"
  by (simp add: name_only_output_def py_strip_def)


lemma filter_no_reported_lines:
  "filter (\<lambda>p. Q p \<and> text_after_last_dot p \<in> {''c'', ''h'', ''cpp''}) [[]] = []"
  by (simp add: text_after_last_dot_def)

text \<open>
  C7 (branch-diff mode). With no \<open>--ci\<close>, no file and no \<open>--all-files\<close>, and a
  version-control diff that exits with status 0, the candidate list is the list of paths
  the diff reported, in that order, restricted to the paths that start with no ignored
  prefix, exist on disk and have their suffix in \<open>c\<close>, \<open>h\<close>, \<open>cpp\<close>: a reported path is
  in the candidate list iff it meets the three conditions. The reported paths are the lines
  of the stripped output; when the output lists the paths one per line, they are these
  paths.
\<close>

theorem branch_diff_mode_selection:
  assumes "\<not> ci a" and "files a = []" and "\<not> all_files a"
    and "git_diff = run_env e tr (git_diff_cmd a)" and "returncode git_diff = 0"
    and "tr1 = tr @ [Run (git_diff_cmd a) git_diff]"
  shows "select_files e a tr =
           (Inr (filter (\<lambda>p. \<not> (\<exists>i\<in>set ignored. prefix i p) \<and> exists_env e tr1 p
                             \<and> text_after_last_dot p \<in> {''c'', ''h'', ''cpp''})
                   (py_split CHR 0x0A (py_strip (stdout git_diff)))),
            tr1)
       \<and> (list_all clean_path paths \<and> stdout git_diff = name_only_output paths
            \<longrightarrow> select_files e a tr =
                  (Inr (filter (\<lambda>p. \<not> (\<exists>i\<in>set ignored. prefix i p) \<and> exists_env e tr1 p
                                    \<and> text_after_last_dot p \<in> {''c'', ''h'', ''cpp''})
                          paths),
                   tr1))"
proof (intro conjI impI)
  show sel: "select_files e a tr =
      (Inr (filter (\<lambda>p. \<not> (\<exists>i\<in>set ignored. prefix i p) \<and> exists_env e tr1 p
                        \<and> text_after_last_dot p \<in> {''c'', ''h'', ''cpp''})
              (py_split CHR 0x0A (py_strip (stdout git_diff)))),
       tr1)"
    using assms by (simp add: select_files_branch_diff_ok branch_diff_loop_filter)
  assume "list_all clean_path paths \<and> stdout git_diff = name_only_output paths"
  then have clean: "list_all clean_path paths" and out: "stdout git_diff = name_only_output paths"
    by simp_all
  show "select_files e a tr =
      (Inr (filter (\<lambda>p. \<not> (\<exists>i\<in>set ignored. prefix i p) \<and> exists_env e tr1 p
                        \<and> text_after_last_dot p \<in> {''c'', ''h'', ''cpp''})
              paths),
       tr1)"
  proof (cases "paths = []")
    case True
    then have "py_split CHR 0x0A (py_strip (stdout git_diff)) = [[]]"
      by (simp add: out no_reported_lines)
    with sel True show ?thesis
      by (simp add: text_after_last_dot_def)
  next
    case False
    then have "py_split CHR 0x0A (py_strip (stdout git_diff)) = paths"
      using clean by (simp add: out reported_lines)
    with sel show ?thesis
      by simp
  qed
qed

theorem branch_diff_mode_selection_witness:
  "list_all clean_path [''quantum/template/x.c'', ''quantum/core.c'']
   \<and> stdout (run_env env_ignored [] (git_diff_cmd args_default))
       = name_only_output [''quantum/template/x.c'', ''quantum/core.c'']
   \<and> select_files env_ignored args_default [] =
       (Inr [''quantum/core.c''],
        [Run (git_diff_cmd args_default)
           \<lparr>returncode = 0,
            stdout = ''quantum/template/x.c'' @ [CHR 0x0A] @ ''quantum/core.c'' @ [CHR 0x0A],
            stderr = []\<rparr>])"
proof -
  have clean: "list_all clean_path [''quantum/template/x.c'', ''quantum/core.c'']"
    by (simp add: clean_path_def py_isspace_def)
  have out: "stdout (run_env env_ignored [] (git_diff_cmd args_default))
      = name_only_output [''quantum/template/x.c'', ''quantum/core.c'']"
    by (simp add: env_ignored_def env_ex_def name_only_output_def)
  have mode: "\<not> ci args_default" "files args_default = []" "\<not> all_files args_default"
    by (simp_all add: args_default_def)
  have ok: "returncode (run_env env_ignored [] (git_diff_cmd args_default)) = 0"
    by (simp add: env_ignored_def env_ex_def)
  note sel = branch_diff_mode_selection [OF mode refl ok refl,
      of "[''quantum/template/x.c'', ''quantum/core.c'']",
      THEN conjunct2, THEN mp, OF conjI [OF clean out]]
  show ?thesis
  proof (intro conjI)
    show "list_all clean_path [''quantum/template/x.c'', ''quantum/core.c'']"
      by (rule clean)
    show "stdout (run_env env_ignored [] (git_diff_cmd args_default))
        = name_only_output [''quantum/template/x.c'', ''quantum/core.c'']"
      by (rule out)
    show "select_files env_ignored args_default [] =
        (Inr [''quantum/core.c''],
         [Run (git_diff_cmd args_default)
            \<lparr>returncode = 0,
             stdout = ''quantum/template/x.c'' @ [CHR 0x0A] @ ''quantum/core.c'' @ [CHR 0x0A],
             stderr = []\<rparr>])"
      using sel
      by (simp add: env_ignored_def env_ex_def ignored_def text_after_last_dot_def)
  qed
qed

text \<open>
  C6 (explicit-files mode). For a non-empty list of file arguments and no \<open>--ci\<close>, the
  candidate list is the list of the normalized arguments, in the order given and with no
  filter applied; with \<open>--all-files\<close> also set, the only effect is one more warning, which
  names the files that are formatted.
\<close>

theorem explicit_files_mode_keeps_list:
  assumes "raw_files \<noteq> []"
  shows "select_files e (parse_args normpath False dry base all_flag raw_files) tr =
     (Inr (map normpath raw_files),
      if all_flag
      then tr @ [Log WARNING ''Filenames passed with -a, only formatting: %s''
                   [AStr (py_join '','' (map normpath raw_files))]]
      else tr)"
  using assms by (simp add: select_files_explicit parse_args_def)

theorem explicit_files_mode_keeps_list_witness:
  "select_files env_ex (parse_args (\<lambda>f. f) False False None True [''README.md'', ''quantum/b.c'', ''README.md'']) [] =
     (Inr [''README.md'', ''quantum/b.c'', ''README.md''],
      [Log WARNING ''Filenames passed with -a, only formatting: %s''
         [AStr ''README.md,quantum/b.c,README.md'']])"
  using explicit_files_mode_keeps_list [of "[''README.md'', ''quantum/b.c'', ''README.md'']" env_ex "\<lambda>f. f" False None True "[]"]
  by simp

lemma changeset_example:
  "changeset_files [''src/a.c'', ''src/a.py'', ''docs/readme.md''] = [''src/a.c'']"
  by (simp add: changeset_files_def has_c_suffix_def file_suffix_def c_file_suffixes_def)

text \<open>
  C5 (changeset mode). With \<open>--ci\<close> and a manifest \<open>m\<close>, the files kept are the entries
  of \<open>m\<close> whose text after the last \<open>.\<close> is \<open>c\<close>, \<open>h\<close> or \<open>cpp\<close>, in the manifest's
  order; when there are some they are the candidate list, and when there are none the
  call logs that the changeset has no C file and ends in \<open>exit(0)\<close>, having started no
  process. The manifest \<open>src/a.c, src/a.py, docs/readme.md\<close> yields \<open>src/a.c\<close>.
\<close>

theorem changeset_mode_selects_c_files:
  assumes "ci a" and "manifest_env e (ci_warning a tr) = Inr m"
  shows "changeset_files m = filter (\<lambda>p. text_after_last_dot p \<in> {''c'', ''h'', ''cpp''}) m
       \<and> (changeset_files m \<noteq> []
            \<longrightarrow> select_files e a tr = (Inr (changeset_files m), ci_warning a tr))
       \<and> (changeset_files m = []
            \<longrightarrow> cformat e a tr =
                  (Exit 0, ci_warning a tr @ [Log INFO ''No C files in changeset: %s''
                                                [AStr (py_join '', '' m)]]))
       \<and> changeset_files [''src/a.c'', ''src/a.py'', ''docs/readme.md''] = [''src/a.c'']"
proof (intro conjI impI)
  show "changeset_files m = filter (\<lambda>p. text_after_last_dot p \<in> {''c'', ''h'', ''cpp''}) m"
    by (rule changeset_files_eq)
  show "changeset_files [''src/a.c'', ''src/a.py'', ''docs/readme.md''] = [''src/a.c'']"
    by (rule changeset_example)
next
  assume "changeset_files m \<noteq> []"
  with assms show "select_files e a tr = (Inr (changeset_files m), ci_warning a tr)"
    by (simp add: select_files_def)
next
  assume "changeset_files m = []"
  with assms show "cformat e a tr =
      (Exit 0, ci_warning a tr @ [Log INFO ''No C files in changeset: %s''
                                    [AStr (py_join '', '' m)]])"
    by (simp add: select_files_def cformat_def)
qed

theorem changeset_mode_selects_c_files_witness:
  "select_files env_ex (args_default\<lparr>ci := True\<rparr>) [] = (Inr [''src/a.c''], [])
   \<and> cformat env_empty (args_default\<lparr>ci := True, all_files := True\<rparr>) [] =
       (Exit 0,
        [Log WARNING ''Filename or -a passed with --ci, only formatting CI files.'' [],
         Log INFO ''No C files in changeset: %s'' [AStr ''docs/readme.md'']])"
proof -
  have m1: "manifest_env env_ex (ci_warning (args_default\<lparr>ci := True\<rparr>) [])
      = Inr [''src/a.c'', ''src/a.py'', ''docs/readme.md'']"
    by (simp add: env_ex_def)
  have m2: "manifest_env env_empty (ci_warning (args_default\<lparr>ci := True, all_files := True\<rparr>) [])
      = Inr [''docs/readme.md'']"
    by (simp add: env_empty_def env_ex_def)
  have e2: "changeset_files [''docs/readme.md''] = []"
    by (simp add: changeset_files_def has_c_suffix_def file_suffix_def c_file_suffixes_def)
  have c1: "ci (args_default\<lparr>ci := True\<rparr>)" and c2: "ci (args_default\<lparr>ci := True, all_files := True\<rparr>)"
    by simp_all
  show ?thesis
    using changeset_mode_selects_c_files [OF c1 m1] changeset_mode_selects_c_files [OF c2 m2] e2
    by (simp add: ci_warning_def args_default_def)
qed

text \<open>
  C10 (paths without a dot). For a path that contains no \<open>.\<close> the suffix the code tests
  is the whole path. Such a path is kept by the changeset filter iff it is in the manifest
  and is exactly \<open>c\<close>, \<open>h\<close> or \<open>cpp\<close>; it is kept by the branch-diff loop iff it is one
  of the reported lines, exists on disk and is exactly \<open>c\<close>, \<open>h\<close> or \<open>cpp\<close>.
\<close>

theorem dotless_path_suffix:
  assumes "CHR ''.'' \<notin> set p"
  shows "file_suffix p = p
       \<and> (p \<in> set (changeset_files m) \<longleftrightarrow> p \<in> set m \<and> p \<in> {''c'', ''h'', ''cpp''})
       \<and> (p \<in> set (branch_diff_loop e tr ls [])
            \<longleftrightarrow> p \<in> set ls \<and> exists_env e tr p \<and> p \<in> {''c'', ''h'', ''cpp''})"
proof -
  have suf: "text_after_last_dot p = p"
    using assms by (rule text_after_last_dot_no_dot)
  have ign: "p \<in> {''c'', ''h'', ''cpp''} \<Longrightarrow> \<not> (\<exists>i\<in>set ignored. prefix i p)"
    by (auto simp: ignored_def)
  show ?thesis
    using suf ign by (auto simp: file_suffix_eq changeset_files_eq branch_diff_loop_filter)
qed

theorem dotless_path_suffix_witness:
  "file_suffix ''cpp'' = ''cpp''
   \<and> changeset_files [''Makefile'', ''cpp'', ''c'', ''h'', ''hpp''] = [''cpp'', ''c'', ''h'']
   \<and> ''cpp'' \<in> set (branch_diff_loop env_ex [] [''cpp'', ''Makefile''] [])
   \<and> ''Makefile'' \<notin> set (branch_diff_loop env_ex [] [''cpp'', ''Makefile''] [])"
proof -
  have d1: "CHR ''.'' \<notin> set ''cpp''" and d2: "CHR ''.'' \<notin> set ''Makefile''"
    by simp_all
  have "changeset_files [''Makefile'', ''cpp'', ''c'', ''h'', ''hpp''] = [''cpp'', ''c'', ''h'']"
    by (simp add: changeset_files_def has_c_suffix_def file_suffix_def c_file_suffixes_def)
  then show ?thesis
    using dotless_path_suffix [OF d1, of "[]" env_ex "[]" "[''cpp'', ''Makefile'']"]
      dotless_path_suffix [OF d2, of "[]" env_ex "[]" "[''cpp'', ''Makefile'']"]
    by (simp add: env_ex_def)
qed

section \<open>Ignored paths\<close>

text \<open>
  C3 as stated fails for branch-diff mode: the loop over the diff's lines tests
  \<open>file.startswith(ignore)\<close>, so a reported path that only contains an ignored entry
  further in, here \<open>tests/quantum/template/x.c\<close>, is selected.
\<close>

theorem branch_diff_substring_counterexample:
  "''quantum/template'' \<in> set ignored
   \<and> sublist ''quantum/template'' ''tests/quantum/template/x.c''
   \<and> fst (select_files env_ex args_default []) = Inr [''tests/quantum/template/x.c'']"
proof -
  have "py_in ''quantum/template'' ''tests/quantum/template/x.c''"
    by (simp add: startswith_def)
  then have "sublist ''quantum/template'' ''tests/quantum/template/x.c''"
    by (simp only: py_in_sublist)
  moreover have "fst (select_files env_ex args_default []) = Inr [''tests/quantum/template/x.c'']"
    by (simp add: select_files_def args_default_def env_ex_def cli_run_def Let_def
        py_strip_def py_isspace_def ignored_def startswith_def has_c_suffix_def
        file_suffix_def c_file_suffixes_def diff_cmd_def git_diff_cmd_def core_dirs_def)
  ultimately show ?thesis
    by (simp add: ignored_def)
qed

text \<open>
  C3, amended: all-files mode never selects a path that contains an ignored entry as a
  substring (so none that starts with one), and branch-diff mode never selects a path that
  starts with an ignored entry, whatever the suffix of the path.
\<close>

theorem ignored_paths_excluded:
  assumes "\<not> ci a" and "files a = []" and "select_files e a tr = (Inr fs, tr1)"
    and "i \<in> set ignored" and "if all_files a then sublist i p else prefix i p"
  shows "p \<notin> set fs"
proof (cases "all_files a")
  case True
  with assms(1-3) have "fs = all_files_filter (c_source_files_env e tr core_dirs)"
    by (auto simp: select_files_all_files)
  with assms(4,5) True show ?thesis
    by (auto simp: all_files_filter_eq)
next
  case False
  show ?thesis
  proof (cases "returncode (run_env e tr (git_diff_cmd a)) = 0")
    case True
    from select_files_branch_diff_ok [OF assms(1,2) False True] assms(3)
    have "fs = branch_diff_loop e tr1
        (py_split CHR 0x0A (py_strip (stdout (run_env e tr (git_diff_cmd a))))) []"
      by simp
    with assms(4,5) False show ?thesis
      by (auto simp: branch_diff_loop_filter)
  next
    case nz: False
    from select_files_branch_diff_fails [OF assms(1,2) False nz] assms(3) show ?thesis
      by simp
  qed
qed

theorem ignored_paths_excluded_witness:
  "fst (select_files env_ex (args_default\<lparr>all_files := True\<rparr>) []) = Inr [''quantum/core.c'']
   \<and> fst (select_files env_ignored args_default []) = Inr [''quantum/core.c'']
   \<and> ''quantum/template/x.c'' \<notin> set [''quantum/core.c'']"
proof -
  let ?a = "args_default\<lparr>all_files := True\<rparr>"
  have s1: "select_files env_ex ?a [] = (Inr [''quantum/core.c''], [])"
    by (simp add: select_files_def args_default_def env_ex_def all_files_filter_def
        ignored_def startswith_def)
  have f2: "fst (select_files env_ignored args_default []) = Inr [''quantum/core.c'']"
    by (simp add: select_files_def args_default_def env_ignored_def env_ex_def cli_run_def
        Let_def py_strip_def py_isspace_def ignored_def startswith_def has_c_suffix_def
        file_suffix_def c_file_suffixes_def)
  then have s2: "select_files env_ignored args_default [] =
      (Inr [''quantum/core.c''], snd (select_files env_ignored args_default []))"
    by (cases "select_files env_ignored args_default []") simp
  have i: "''quantum/template'' \<in> set ignored"
    by (simp add: ignored_def)
  have sub: "if all_files ?a then sublist ''quantum/template'' ''quantum/template/x.c''
      else prefix ''quantum/template'' ''quantum/template/x.c''"
    by (simp add: args_default_def py_in_sublist [symmetric] startswith_def)
  have pre: "if all_files args_default then sublist ''quantum/template'' ''quantum/template/x.c''
      else prefix ''quantum/template'' ''quantum/template/x.c''"
    by (simp add: args_default_def)
  have na: "\<not> ci ?a" "files ?a = []" and nb: "\<not> ci args_default" "files args_default = []"
    by (simp_all add: args_default_def)
  from ignored_paths_excluded [OF na s1 i sub] ignored_paths_excluded [OF nb s2 i pre]
  show ?thesis
    using s1 f2 by simp
qed

section \<open>Formatter resolution\<close>

text \<open>
  C9 as stated fails on the order of the probes: the list of versions is ascending. With
  \<open>clang-format-7\<close> and \<open>clang-format-10\<close> both installed, a descending probe returns
  \<open>clang-format-10\<close> and the code returns \<open>clang-format-7\<close>.
\<close>

theorem find_clang_format_order_counterexample:
  "py_bool (which_env env_ex [] ''clang-format-10'')
   \<and> find_clang_format_descending env_ex [] = ''clang-format-10''
   \<and> find_clang_format env_ex [] = ''clang-format-7''"
  by (simp add: find_clang_format_def find_clang_format_descending_def env_ex_def py_bool_def
      binary_7 binary_8 binary_9 binary_10)

text \<open>
  C9, amended: \<open>find_clang_format\<close> probes the names \<open>clang-format-7\<close>, \<open>-8\<close>, \<open>-9\<close>,
  \<open>-10\<close> in this ascending order and returns the first that \<open>which\<close> finds, or
  \<open>clang-format\<close> when it finds none; the answer is computed from the environment of the
  moment of the call and nothing is kept between calls: every formatter that \<open>find_diffs\<close>
  starts is the one \<open>find_clang_format\<close> returns at that moment.
\<close>

theorem find_clang_format_first_found:
  "find_clang_format e tr =
     (case List.find (\<lambda>b. py_bool (which_env e tr b))
             [''clang-format-7'', ''clang-format-8'', ''clang-format-9'', ''clang-format-10''] of
        Some b \<Rightarrow> b
      | None \<Rightarrow> ''clang-format'')
   \<and> (find_diffs e fs tr = (found, tr') \<longrightarrow> probes_fresh e tr (new_events tr tr'))"
  using find_clang_format_find [of e tr] find_diffs_trace(5) [of e fs tr found tr']
  by blast

theorem find_clang_format_first_found_witness:
  "find_clang_format env_install [] = ''clang-format''
   \<and> popen_cmds (snd (find_diffs env_install [''a.c'', ''b.c''] []))
       = [[''clang-format'', ''a.c''], [''clang-format-7'', ''b.c'']]
   \<and> probes_fresh env_install [] (snd (find_diffs env_install [''a.c'', ''b.c''] []))"
proof -
  have run: "find_diffs env_install [''a.c'', ''b.c''] []
      = (fst (find_diffs env_install [''a.c'', ''b.c''] []),
         snd (find_diffs env_install [''a.c'', ''b.c''] []))"
    by simp
  have cmds: "popen_cmds (snd (find_diffs env_install [''a.c'', ''b.c''] []))
      = [[''clang-format'', ''a.c''], [''clang-format-7'', ''b.c'']]"
    by (simp add: find_diffs_def env_install_def env_ex_def cli_run_def Let_def diff_cmd_def
        find_clang_format_def py_bool_def binary_7 binary_8 binary_9 binary_10)
  show ?thesis
    using find_clang_format_first_found [of env_install "[]" "[''a.c'', ''b.c'']"
        "fst (find_diffs env_install [''a.c'', ''b.c''] [])"
        "snd (find_diffs env_install [''a.c'', ''b.c''] [])"] run cmds
    by (simp add: new_events_def env_install_def env_ex_def py_bool_def)
qed

end
